theory Spec2Isabelle
  imports Main "HOL-Library.Word"
begin

section \<open>ckcore: the POSIX back-end of the File class (src/linux/file.cc)\<close>

text \<open>
  The class \<^verbatim>\<open>ckcore::File\<close> owns at most one descriptor bound to a path and
  forwards every operation to a primitive of the C library. The embedding keeps
  the two fields of the class in a record, passes the state of the operating
  system explicitly, and takes the primitives themselves as a parameter (a
  record of functions), so that every theorem about the class holds whatever
  the operating system answers. Each primitive that is invoked is appended,
  with its arguments and its result, to a trace; the trace is the observable
  that says which primitives a method invoked and in which order.

  The source does no arithmetic on descriptors, offsets or byte counts: it only
  compares them with the sentinel \<open>-1\<close> and hands them on. They are therefore
  modelled as \<open>int\<close>; no wrap-around can occur in the code embedded here.
\<close>

subsection \<open>Data\<close>

type_synonym byte = "8 word"

text \<open>The collaborator \<^verbatim>\<open>Path\<close>: a value exposing its name string.\<close>

datatype Path = Path (Name: string)

text \<open>
  The two enumerations are closed sets: the \<^verbatim>\<open>switch\<close> statements of the source
  have a branch for each enumerator, and the code after them, reached only by
  a value outside the enumeration, has no counterpart in the model.
\<close>

datatype FileMode = ckOPEN_READ | ckOPEN_WRITE

datatype FileWhence = ckFILE_CURRENT | ckFILE_BEGIN | ckFILE_END

text \<open>
  The fields \<^verbatim>\<open>file_handle_\<close> and \<^verbatim>\<open>file_path_\<close> of the class (an Isabelle name
  cannot end in an underscore); \<open>file_handle = -1\<close> is the absent handle.
\<close>

record File =
  file_handle :: int
  file_path :: Path

subsection \<open>The C library as a parameter\<close>

datatype oflag = O_RDONLY | O_WRONLY | O_CREAT

datatype perm = S_IRUSR | S_IWUSR

datatype whence = SEEK_SET | SEEK_CUR | SEEK_END

datatype amode = R_OK | W_OK

record stat =
  st_size :: int
  st_atime :: int
  st_mtime :: int
  st_ctime :: int

text \<open>
  A primitive that changes the system takes the kernel state and returns its
  result with the new state. \<^verbatim>\<open>stat\<close>, \<^verbatim>\<open>fstat\<close> and \<^verbatim>\<open>access\<close> are queries: \<open>None\<close>
  stands for the return value \<open>-1\<close>, \<open>Some st\<close> for \<open>0\<close> with the buffer filled.
  \<^verbatim>\<open>localtime_r\<close> returns \<open>None\<close> for \<^verbatim>\<open>NULL\<close>.
\<close>

record ('k, 'tm) posix =
  sys_open :: "string \<Rightarrow> oflag list \<Rightarrow> perm list \<Rightarrow> 'k \<Rightarrow> int \<times> 'k"
  sys_close :: "int \<Rightarrow> 'k \<Rightarrow> int \<times> 'k"
  sys_lseek :: "int \<Rightarrow> int \<Rightarrow> whence \<Rightarrow> 'k \<Rightarrow> int \<times> 'k"
  sys_read :: "int \<Rightarrow> nat \<Rightarrow> 'k \<Rightarrow> (int \<times> byte list) \<times> 'k"
  sys_write :: "int \<Rightarrow> byte list \<Rightarrow> 'k \<Rightarrow> int \<times> 'k"
  sys_stat :: "string \<Rightarrow> 'k \<Rightarrow> stat option"
  sys_fstat :: "int \<Rightarrow> 'k \<Rightarrow> stat option"
  sys_unlink :: "string \<Rightarrow> 'k \<Rightarrow> int \<times> 'k"
  sys_rename :: "string \<Rightarrow> string \<Rightarrow> 'k \<Rightarrow> int \<times> 'k"
  sys_access :: "string \<Rightarrow> amode \<Rightarrow> 'k \<Rightarrow> int"
  localtime_r :: "int \<Rightarrow> 'tm option"

text \<open>One entry of the trace: the primitive, its arguments, its return value.\<close>

datatype syscall =
    open_call string "oflag list" "perm list" int
  | close_call int int
  | lseek_call int int whence int
  | read_call int nat int
  | write_call int "byte list" int
  | stat_call string int
  | fstat_call int int
  | unlink_call string int
  | rename_call string string int
  | access_call string amode int

record 'k world =
  kernel :: 'k
  trace :: "syscall list"

definition status :: "'a option \<Rightarrow> int" where
  "status r = (case r of None \<Rightarrow> -1 | Some _ \<Rightarrow> 0)"

definition c_open ::
  "('k, 'tm) posix \<Rightarrow> string \<Rightarrow> oflag list \<Rightarrow> perm list \<Rightarrow> 'k world \<Rightarrow> int \<times> 'k world" where
  "c_open os p fl md w =
     (case sys_open os p fl md (kernel w) of
        (r, k') \<Rightarrow> (r, \<lparr>kernel = k', trace = trace w @ [open_call p fl md r]\<rparr>))"

definition c_close :: "('k, 'tm) posix \<Rightarrow> int \<Rightarrow> 'k world \<Rightarrow> int \<times> 'k world" where
  "c_close os fd w =
     (case sys_close os fd (kernel w) of
        (r, k') \<Rightarrow> (r, \<lparr>kernel = k', trace = trace w @ [close_call fd r]\<rparr>))"

definition c_lseek ::
  "('k, 'tm) posix \<Rightarrow> int \<Rightarrow> int \<Rightarrow> whence \<Rightarrow> 'k world \<Rightarrow> int \<times> 'k world" where
  "c_lseek os fd off wh w =
     (case sys_lseek os fd off wh (kernel w) of
        (r, k') \<Rightarrow> (r, \<lparr>kernel = k', trace = trace w @ [lseek_call fd off wh r]\<rparr>))"

definition c_read ::
  "('k, 'tm) posix \<Rightarrow> int \<Rightarrow> nat \<Rightarrow> 'k world \<Rightarrow> (int \<times> byte list) \<times> 'k world" where
  "c_read os fd n w =
     (case sys_read os fd n (kernel w) of
        ((r, bs), k') \<Rightarrow> ((r, bs), \<lparr>kernel = k', trace = trace w @ [read_call fd n r]\<rparr>))"

definition c_write ::
  "('k, 'tm) posix \<Rightarrow> int \<Rightarrow> byte list \<Rightarrow> 'k world \<Rightarrow> int \<times> 'k world" where
  "c_write os fd bs w =
     (case sys_write os fd bs (kernel w) of
        (r, k') \<Rightarrow> (r, \<lparr>kernel = k', trace = trace w @ [write_call fd bs r]\<rparr>))"

definition c_stat :: "('k, 'tm) posix \<Rightarrow> string \<Rightarrow> 'k world \<Rightarrow> stat option \<times> 'k world" where
  "c_stat os p w =
     (sys_stat os p (kernel w),
      w\<lparr>trace := trace w @ [stat_call p (status (sys_stat os p (kernel w)))]\<rparr>)"

definition c_fstat :: "('k, 'tm) posix \<Rightarrow> int \<Rightarrow> 'k world \<Rightarrow> stat option \<times> 'k world" where
  "c_fstat os fd w =
     (sys_fstat os fd (kernel w),
      w\<lparr>trace := trace w @ [fstat_call fd (status (sys_fstat os fd (kernel w)))]\<rparr>)"

definition c_unlink :: "('k, 'tm) posix \<Rightarrow> string \<Rightarrow> 'k world \<Rightarrow> int \<times> 'k world" where
  "c_unlink os p w =
     (case sys_unlink os p (kernel w) of
        (r, k') \<Rightarrow> (r, \<lparr>kernel = k', trace = trace w @ [unlink_call p r]\<rparr>))"

definition c_rename ::
  "('k, 'tm) posix \<Rightarrow> string \<Rightarrow> string \<Rightarrow> 'k world \<Rightarrow> int \<times> 'k world" where
  "c_rename os p q w =
     (case sys_rename os p q (kernel w) of
        (r, k') \<Rightarrow> (r, \<lparr>kernel = k', trace = trace w @ [rename_call p q r]\<rparr>))"

definition c_access :: "('k, 'tm) posix \<Rightarrow> string \<Rightarrow> amode \<Rightarrow> 'k world \<Rightarrow> int \<times> 'k world" where
  "c_access os p m w =
     (sys_access os p m (kernel w),
      w\<lparr>trace := trace w @ [access_call p m (sys_access os p m (kernel w))]\<rparr>)"

subsection \<open>The static (path-only) functions\<close>

text \<open>\<^verbatim>\<open>File::Exist(const Path &)\<close>\<close>

definition Exist_path :: "('k, 'tm) posix \<Rightarrow> Path \<Rightarrow> 'k world \<Rightarrow> bool \<times> 'k world" where
  "Exist_path os path w =
     (case c_stat os (Name path) w of (r, w') \<Rightarrow> (status r = 0, w'))"

text \<open>\<^verbatim>\<open>File::Remove(const Path &)\<close>\<close>

definition Remove_path :: "('k, 'tm) posix \<Rightarrow> Path \<Rightarrow> 'k world \<Rightarrow> bool \<times> 'k world" where
  "Remove_path os path w =
     (case c_unlink os (Name path) w of (r, w') \<Rightarrow> (r = 0, w'))"

text \<open>\<^verbatim>\<open>File::Rename(const Path &, const Path &)\<close>\<close>

definition Rename_path ::
  "('k, 'tm) posix \<Rightarrow> Path \<Rightarrow> Path \<Rightarrow> 'k world \<Rightarrow> bool \<times> 'k world" where
  "Rename_path os old_path new_path w =
     (case Exist_path os new_path w of
        (ex, w1) \<Rightarrow>
          if ex then (False, w1)
          else (case c_rename os (Name old_path) (Name new_path) w1 of
                  (r, w2) \<Rightarrow> (r = 0, w2)))"

text \<open>
  The three \<^verbatim>\<open>struct tm &\<close> parameters are passed in and returned: a conversion
  that fails leaves the parameters converted so far filled and the others as
  they were.
\<close>

definition convert_times ::
  "('k, 'tm) posix \<Rightarrow> stat \<Rightarrow> 'tm \<times> 'tm \<times> 'tm \<Rightarrow> bool \<times> 'tm \<times> 'tm \<times> 'tm" where
  "convert_times os file_stat tms =
     (case tms of
        (access_time, modify_time, create_time) \<Rightarrow>
          (case localtime_r os (st_atime file_stat) of
             None \<Rightarrow> (False, access_time, modify_time, create_time)
           | Some a \<Rightarrow>
               (case localtime_r os (st_mtime file_stat) of
                  None \<Rightarrow> (False, a, modify_time, create_time)
                | Some m \<Rightarrow>
                    (case localtime_r os (st_ctime file_stat) of
                       None \<Rightarrow> (False, a, m, create_time)
                     | Some c \<Rightarrow> (True, a, m, c)))))"

text \<open>\<^verbatim>\<open>File::Time(const Path &, struct tm &, struct tm &, struct tm &)\<close>\<close>

definition Time_path ::
  "('k, 'tm) posix \<Rightarrow> Path \<Rightarrow> 'tm \<times> 'tm \<times> 'tm \<Rightarrow> 'k world \<Rightarrow>
     (bool \<times> 'tm \<times> 'tm \<times> 'tm) \<times> 'k world" where
  "Time_path os path tms w =
     (case c_stat os (Name path) w of
        (None, w') \<Rightarrow> ((False, tms), w')
      | (Some file_stat, w') \<Rightarrow> (convert_times os file_stat tms, w'))"

text \<open>\<^verbatim>\<open>File::Access(const Path &, FileMode)\<close>\<close>

definition Access_path ::
  "('k, 'tm) posix \<Rightarrow> Path \<Rightarrow> FileMode \<Rightarrow> 'k world \<Rightarrow> bool \<times> 'k world" where
  "Access_path os path file_mode w =
     (case file_mode of
        ckOPEN_READ \<Rightarrow>
          (case c_access os (Name path) R_OK w of (r, w') \<Rightarrow> (r = 0, w'))
      | ckOPEN_WRITE \<Rightarrow>
          (case c_access os (Name path) W_OK w of (r, w') \<Rightarrow> (r = 0, w')))"

text \<open>\<^verbatim>\<open>File::Size(const Path &)\<close>\<close>

definition Size_path :: "('k, 'tm) posix \<Rightarrow> Path \<Rightarrow> 'k world \<Rightarrow> int \<times> 'k world" where
  "Size_path os path w =
     (case c_stat os (Name path) w of
        (None, w') \<Rightarrow> (-1, w')
      | (Some file_stat, w') \<Rightarrow> (st_size file_stat, w'))"

subsection \<open>The member functions\<close>

text \<open>\<^verbatim>\<open>File::File(const Path &)\<close>\<close>

definition new_File :: "Path \<Rightarrow> File" where
  "new_File path = \<lparr>file_handle = -1, file_path = path\<rparr>"

text \<open>\<^verbatim>\<open>File::Close()\<close>\<close>

definition Close :: "('k, 'tm) posix \<Rightarrow> 'k world \<Rightarrow> File \<Rightarrow> bool \<times> 'k world \<times> File" where
  "Close os w f =
     (if file_handle f = -1 then (False, w, f)
      else (case c_close os (file_handle f) w of
              (r, w') \<Rightarrow>
                if r = 0 then (True, w', f\<lparr>file_handle := -1\<rparr>)
                else (False, w', f)))"

text \<open>\<^verbatim>\<open>File::~File()\<close>: the result of \<^verbatim>\<open>Close\<close> is dropped.\<close>

definition delete_File :: "('k, 'tm) posix \<Rightarrow> 'k world \<Rightarrow> File \<Rightarrow> 'k world" where
  "delete_File os w f = (case Close os w f of (_, w', _) \<Rightarrow> w')"

text \<open>The \<^verbatim>\<open>switch\<close> of \<^verbatim>\<open>File::Open\<close> and its final \<^verbatim>\<open>return\<close>.\<close>

definition acquire ::
  "('k, 'tm) posix \<Rightarrow> FileMode \<Rightarrow> 'k world \<Rightarrow> File \<Rightarrow> bool \<times> 'k world \<times> File" where
  "acquire os file_mode w f =
     (case (case file_mode of
              ckOPEN_READ \<Rightarrow> c_open os (Name (file_path f)) [O_RDONLY] [] w
            | ckOPEN_WRITE \<Rightarrow>
                c_open os (Name (file_path f)) [O_CREAT, O_WRONLY] [S_IRUSR, S_IWUSR] w) of
        (fd, w') \<Rightarrow> (fd \<noteq> -1, w', f\<lparr>file_handle := fd\<rparr>))"

text \<open>
  \<^verbatim>\<open>File::Open(FileMode)\<close>. The condition \<^verbatim>\<open>file_handle != -1 && !Close()\<close>
  short-circuits: \<^verbatim>\<open>Close\<close> runs only when the handle is present.
\<close>

definition Open ::
  "('k, 'tm) posix \<Rightarrow> FileMode \<Rightarrow> 'k world \<Rightarrow> File \<Rightarrow> bool \<times> 'k world \<times> File" where
  "Open os file_mode w f =
     (if file_handle f \<noteq> -1 then
        (case Close os w f of
           (closed, w1, f1) \<Rightarrow>
             if \<not> closed then (False, w1, f1) else acquire os file_mode w1 f1)
      else acquire os file_mode w f)"

text \<open>\<^verbatim>\<open>File::Test()\<close>\<close>

definition Test :: "File \<Rightarrow> bool" where
  "Test f = (file_handle f \<noteq> -1)"

text \<open>\<^verbatim>\<open>File::Seek(tint64, FileWhence)\<close>\<close>

definition Seek ::
  "('k, 'tm) posix \<Rightarrow> int \<Rightarrow> FileWhence \<Rightarrow> 'k world \<Rightarrow> File \<Rightarrow> int \<times> 'k world \<times> File" where
  "Seek os distance wh w f =
     (if file_handle f = -1 then (-1, w, f)
      else (case wh of
              ckFILE_CURRENT \<Rightarrow>
                (case c_lseek os (file_handle f) distance SEEK_CUR w of (r, w') \<Rightarrow> (r, w', f))
            | ckFILE_BEGIN \<Rightarrow>
                (case c_lseek os (file_handle f) distance SEEK_SET w of (r, w') \<Rightarrow> (r, w', f))
            | ckFILE_END \<Rightarrow>
                (case c_lseek os (file_handle f) distance SEEK_END w of (r, w') \<Rightarrow> (r, w', f))))"

text \<open>\<^verbatim>\<open>File::Tell()\<close>\<close>

definition Tell :: "('k, 'tm) posix \<Rightarrow> 'k world \<Rightarrow> File \<Rightarrow> int \<times> 'k world \<times> File" where
  "Tell os w f =
     (if file_handle f = -1 then (-1, w, f)
      else (case c_lseek os (file_handle f) 0 SEEK_CUR w of (r, w') \<Rightarrow> (r, w', f)))"

text \<open>
  \<^verbatim>\<open>File::Read(void *, unsigned long)\<close>. Beside the return value the model
  returns the bytes the primitive stored at the start of the buffer (none when
  the primitive is not reached).
\<close>

definition Read ::
  "('k, 'tm) posix \<Rightarrow> nat \<Rightarrow> 'k world \<Rightarrow> File \<Rightarrow> (int \<times> byte list) \<times> 'k world \<times> File" where
  "Read os count w f =
     (if file_handle f = -1 then ((-1, []), w, f)
      else (case c_read os (file_handle f) count w of (r, w') \<Rightarrow> (r, w', f)))"

text \<open>
  \<^verbatim>\<open>File::Write(const void *, unsigned long)\<close>: the buffer is the list of its
  \<^verbatim>\<open>count\<close> bytes.
\<close>

definition Write ::
  "('k, 'tm) posix \<Rightarrow> byte list \<Rightarrow> 'k world \<Rightarrow> File \<Rightarrow> int \<times> 'k world \<times> File" where
  "Write os buffer w f =
     (if file_handle f = -1 then (-1, w, f)
      else (case c_write os (file_handle f) buffer w of (r, w') \<Rightarrow> (r, w', f)))"

text \<open>\<^verbatim>\<open>File::Exist()\<close>\<close>

definition Exist :: "('k, 'tm) posix \<Rightarrow> 'k world \<Rightarrow> File \<Rightarrow> bool \<times> 'k world \<times> File" where
  "Exist os w f =
     (if file_handle f \<noteq> -1 then
        (case c_fstat os (file_handle f) w of (r, w') \<Rightarrow> (status r = 0, w', f))
      else (case Exist_path os (file_path f) w of (r, w') \<Rightarrow> (r, w', f)))"

text \<open>\<^verbatim>\<open>File::Remove()\<close>\<close>

definition Remove :: "('k, 'tm) posix \<Rightarrow> 'k world \<Rightarrow> File \<Rightarrow> bool \<times> 'k world \<times> File" where
  "Remove os w f =
     (case Close os w f of
        (_, w1, f1) \<Rightarrow>
          (case c_unlink os (Name (file_path f1)) w1 of
             (r, w2) \<Rightarrow> (r = 0, w2, f1)))"

text \<open>\<^verbatim>\<open>File::Rename(const Path &)\<close>\<close>

definition Rename ::
  "('k, 'tm) posix \<Rightarrow> Path \<Rightarrow> 'k world \<Rightarrow> File \<Rightarrow> bool \<times> 'k world \<times> File" where
  "Rename os new_file_path w f =
     (case Exist_path os new_file_path w of
        (ex, w0) \<Rightarrow>
          if ex then (False, w0, f)
          else (case Close os w0 f of
                  (_, w1, f1) \<Rightarrow>
                    (case c_rename os (Name (file_path f1)) (Name new_file_path) w1 of
                       (r, w2) \<Rightarrow>
                         if r = 0 then (True, w2, f1\<lparr>file_path := new_file_path\<rparr>)
                         else (False, w2, f1))))"

text \<open>\<^verbatim>\<open>File::Time(struct tm &, struct tm &, struct tm &)\<close>\<close>

definition Time ::
  "('k, 'tm) posix \<Rightarrow> 'tm \<times> 'tm \<times> 'tm \<Rightarrow> 'k world \<Rightarrow> File \<Rightarrow>
     (bool \<times> 'tm \<times> 'tm \<times> 'tm) \<times> 'k world \<times> File" where
  "Time os tms w f =
     (if file_handle f \<noteq> -1 then
        (case c_fstat os (file_handle f) w of
           (None, w') \<Rightarrow> ((False, tms), w', f)
         | (Some file_stat, w') \<Rightarrow> (convert_times os file_stat tms, w', f))
      else (case Time_path os (Path (Name (file_path f))) tms w of (r, w') \<Rightarrow> (r, w', f)))"

text \<open>\<^verbatim>\<open>File::Access(FileMode)\<close>\<close>

definition Access ::
  "('k, 'tm) posix \<Rightarrow> FileMode \<Rightarrow> 'k world \<Rightarrow> File \<Rightarrow> bool \<times> 'k world \<times> File" where
  "Access os file_mode w f =
     (case Access_path os (Path (Name (file_path f))) file_mode w of (r, w') \<Rightarrow> (r, w', f))"

text \<open>\<^verbatim>\<open>File::Size()\<close>: the result of the last \<^verbatim>\<open>Seek\<close> is dropped.\<close>

definition Size :: "('k, 'tm) posix \<Rightarrow> 'k world \<Rightarrow> File \<Rightarrow> int \<times> 'k world \<times> File" where
  "Size os w f =
     (if file_handle f = -1 then
        (case Size_path os (Path (Name (file_path f))) w of (r, w') \<Rightarrow> (r, w', f))
      else (case Tell os w f of
              (cur_pos, w1, f1) \<Rightarrow>
                (case Seek os 0 ckFILE_END w1 f1 of
                   (size', w2, f2) \<Rightarrow>
                     (case Seek os cur_pos ckFILE_BEGIN w2 f2 of
                        (_, w3, f3) \<Rightarrow> (size', w3, f3)))))"

subsection \<open>A model of the primitives on regular files\<close>

text \<open>
  One instance of the parameter, used to run the class on concrete inputs and
  to state what depends on the meaning of \<^verbatim>\<open>lseek\<close>: a flat directory of names
  bound to inodes, inodes holding bytes, owner permission bits and time stamps,
  and a descriptor table of open file descriptions with an offset each. It
  follows the POSIX descriptions of the calls for regular files. A descriptor
  in \<open>k_close_eio\<close> is one whose \<^verbatim>\<open>close\<close> reports an error and stays in the
  table, which is the situation \<^verbatim>\<open>File::Close\<close> provides for.
\<close>

record inode =
  i_data :: "byte list"
  i_rd :: bool
  i_wr :: bool
  i_atime :: int
  i_mtime :: int
  i_ctime :: int

record ofd =
  ofd_ino :: nat
  ofd_pos :: nat
  ofd_rd :: bool
  ofd_wr :: bool

record kernel =
  k_names :: "string \<rightharpoonup> nat"
  k_inodes :: "nat \<rightharpoonup> inode"
  k_fds :: "int \<rightharpoonup> ofd"
  k_close_eio :: "int \<Rightarrow> bool"
  k_next_ino :: nat
  k_open_max :: nat
  k_clock :: int

fun lowest_free :: "(int \<rightharpoonup> ofd) \<Rightarrow> nat \<Rightarrow> nat \<Rightarrow> int" where
  "lowest_free t 0 n = -1"
| "lowest_free t (Suc fuel) n =
     (if t (int n) = None then int n else lowest_free t fuel (Suc n))"

definition install :: "nat \<Rightarrow> bool \<Rightarrow> bool \<Rightarrow> kernel \<Rightarrow> int \<times> kernel" where
  "install i rd wr k =
     (let fd = lowest_free (k_fds k) (k_open_max k) 0
      in if fd = -1 then (-1, k)
         else (fd, k\<lparr>k_fds := (k_fds k)(fd \<mapsto>
                 \<lparr>ofd_ino = i, ofd_pos = 0, ofd_rd = rd, ofd_wr = wr\<rparr>)\<rparr>))"

definition k_open :: "string \<Rightarrow> oflag list \<Rightarrow> perm list \<Rightarrow> kernel \<Rightarrow> int \<times> kernel" where
  "k_open p fl md k =
     (let wr = (O_WRONLY \<in> set fl); rd = \<not> wr
      in if lowest_free (k_fds k) (k_open_max k) 0 = -1 then (-1, k)
         else
           (case k_names k p of
              Some i \<Rightarrow>
                (case k_inodes k i of
                   None \<Rightarrow> (-1, k)
                 | Some nd \<Rightarrow>
                     if (wr \<and> \<not> i_wr nd) \<or> (rd \<and> \<not> i_rd nd) then (-1, k)
                     else install i rd wr k)
            | None \<Rightarrow>
                if O_CREAT \<in> set fl then
                  install (k_next_ino k) rd wr
                    (k\<lparr>k_names := (k_names k)(p \<mapsto> k_next_ino k),
                       k_inodes := (k_inodes k)(k_next_ino k \<mapsto>
                         \<lparr>i_data = [], i_rd = (S_IRUSR \<in> set md), i_wr = (S_IWUSR \<in> set md),
                          i_atime = k_clock k, i_mtime = k_clock k, i_ctime = k_clock k\<rparr>),
                       k_next_ino := Suc (k_next_ino k)\<rparr>)
                else (-1, k)))"

definition k_close :: "int \<Rightarrow> kernel \<Rightarrow> int \<times> kernel" where
  "k_close fd k =
     (case k_fds k fd of
        None \<Rightarrow> (-1, k)
      | Some d \<Rightarrow>
          if k_close_eio k fd then (-1, k)
          else (0, k\<lparr>k_fds := (k_fds k)(fd := None)\<rparr>))"

definition k_lseek :: "int \<Rightarrow> int \<Rightarrow> whence \<Rightarrow> kernel \<Rightarrow> int \<times> kernel" where
  "k_lseek fd off wh k =
     (case k_fds k fd of
        None \<Rightarrow> (-1, k)
      | Some d \<Rightarrow>
          (case k_inodes k (ofd_ino d) of
             None \<Rightarrow> (-1, k)
           | Some nd \<Rightarrow>
               (let base = (case wh of
                              SEEK_SET \<Rightarrow> 0
                            | SEEK_CUR \<Rightarrow> int (ofd_pos d)
                            | SEEK_END \<Rightarrow> int (length (i_data nd)));
                    new = base + off
                in if new < 0 then (-1, k)
                   else (new, k\<lparr>k_fds := (k_fds k)(fd \<mapsto> d\<lparr>ofd_pos := nat new\<rparr>)\<rparr>))))"

definition k_read :: "int \<Rightarrow> nat \<Rightarrow> kernel \<Rightarrow> (int \<times> byte list) \<times> kernel" where
  "k_read fd n k =
     (case k_fds k fd of
        None \<Rightarrow> ((-1, []), k)
      | Some d \<Rightarrow>
          (case k_inodes k (ofd_ino d) of
             None \<Rightarrow> ((-1, []), k)
           | Some nd \<Rightarrow>
               if \<not> ofd_rd d then ((-1, []), k)
               else (let bs = take n (drop (ofd_pos d) (i_data nd))
                     in ((int (length bs), bs),
                         k\<lparr>k_fds := (k_fds k)(fd \<mapsto> d\<lparr>ofd_pos := ofd_pos d + length bs\<rparr>)\<rparr>))))"

definition overlay :: "byte list \<Rightarrow> nat \<Rightarrow> byte list \<Rightarrow> byte list" where
  "overlay old pos bs =
     take pos (old @ replicate (pos - length old) 0) @ bs @ drop (pos + length bs) old"

definition k_write :: "int \<Rightarrow> byte list \<Rightarrow> kernel \<Rightarrow> int \<times> kernel" where
  "k_write fd bs k =
     (case k_fds k fd of
        None \<Rightarrow> (-1, k)
      | Some d \<Rightarrow>
          (case k_inodes k (ofd_ino d) of
             None \<Rightarrow> (-1, k)
           | Some nd \<Rightarrow>
               if \<not> ofd_wr d then (-1, k)
               else (int (length bs),
                     k\<lparr>k_inodes := (k_inodes k)(ofd_ino d \<mapsto>
                          nd\<lparr>i_data := overlay (i_data nd) (ofd_pos d) bs,
                             i_mtime := k_clock k\<rparr>),
                        k_fds := (k_fds k)(fd \<mapsto> d\<lparr>ofd_pos := ofd_pos d + length bs\<rparr>)\<rparr>)))"

definition stat_of :: "inode \<Rightarrow> stat" where
  "stat_of nd = \<lparr>st_size = int (length (i_data nd)), st_atime = i_atime nd,
                 st_mtime = i_mtime nd, st_ctime = i_ctime nd\<rparr>"

definition k_stat :: "string \<Rightarrow> kernel \<Rightarrow> stat option" where
  "k_stat p k =
     (case k_names k p of
        None \<Rightarrow> None
      | Some i \<Rightarrow> map_option stat_of (k_inodes k i))"

definition k_fstat :: "int \<Rightarrow> kernel \<Rightarrow> stat option" where
  "k_fstat fd k =
     (case k_fds k fd of
        None \<Rightarrow> None
      | Some d \<Rightarrow> map_option stat_of (k_inodes k (ofd_ino d)))"

definition k_unlink :: "string \<Rightarrow> kernel \<Rightarrow> int \<times> kernel" where
  "k_unlink p k =
     (case k_names k p of
        None \<Rightarrow> (-1, k)
      | Some i \<Rightarrow> (0, k\<lparr>k_names := (k_names k)(p := None)\<rparr>))"

definition k_rename :: "string \<Rightarrow> string \<Rightarrow> kernel \<Rightarrow> int \<times> kernel" where
  "k_rename p q k =
     (case k_names k p of
        None \<Rightarrow> (-1, k)
      | Some i \<Rightarrow> (0, k\<lparr>k_names := ((k_names k)(p := None))(q \<mapsto> i)\<rparr>))"

definition k_access :: "string \<Rightarrow> amode \<Rightarrow> kernel \<Rightarrow> int" where
  "k_access p m k =
     (case k_names k p of
        None \<Rightarrow> -1
      | Some i \<Rightarrow>
          (case k_inodes k i of
             None \<Rightarrow> -1
           | Some nd \<Rightarrow>
               (case m of
                  R_OK \<Rightarrow> if i_rd nd then 0 else -1
                | W_OK \<Rightarrow> if i_wr nd then 0 else -1)))"

text \<open>
  The conversion of a time stamp is kept abstract in the class; the instance
  splits the seconds of a non-negative stamp into days, hours, minutes, seconds.
\<close>

definition k_localtime :: "int \<Rightarrow> (int \<times> int \<times> int \<times> int) option" where
  "k_localtime t =
     (if t < 0 then None
      else Some (t div 86400, t mod 86400 div 3600, t mod 3600 div 60, t mod 60))"

definition regular_files :: "(kernel, int \<times> int \<times> int \<times> int) posix" where
  "regular_files =
     \<lparr>sys_open = k_open, sys_close = k_close, sys_lseek = k_lseek, sys_read = k_read,
      sys_write = k_write, sys_stat = k_stat, sys_fstat = k_fstat, sys_unlink = k_unlink,
      sys_rename = k_rename, sys_access = k_access, localtime_r = k_localtime\<rparr>"

text \<open>
  A small system for the examples: the readable and writable files \<open>a\<close>
  (bytes 1, 2, 3) and \<open>b\<close> (bytes 9, 9), no descriptor open, sixteen
  descriptors available.
\<close>

definition disk :: kernel where
  "disk =
     \<lparr>k_names = [''a'' \<mapsto> 0, ''b'' \<mapsto> 1],
      k_inodes = [0 \<mapsto> \<lparr>i_data = [1, 2, 3], i_rd = True, i_wr = True,
                         i_atime = 100, i_mtime = 200, i_ctime = 300\<rparr>,
                  1 \<mapsto> \<lparr>i_data = [9, 9], i_rd = True, i_wr = True,
                         i_atime = 100, i_mtime = 200, i_ctime = 300\<rparr>],
      k_fds = Map.empty,
      k_close_eio = (\<lambda>_. False),
      k_next_ino = 2,
      k_open_max = 16,
      k_clock = 1000\<rparr>"

definition boot :: "kernel \<Rightarrow> kernel world" where
  "boot k = \<lparr>kernel = k, trace = []\<rparr>"

subsection \<open>Sequences of operations\<close>

text \<open>
  The operations a caller can apply to one \<^verbatim>\<open>File\<close>, what each returned, and
  the run of a list of them in program order.
\<close>

datatype operation =
    Open_op FileMode
  | Close_op
  | Remove_op
  | Seek_op int FileWhence
  | Tell_op
  | Read_op nat
  | Write_op "byte list"
  | Rename_op Path

datatype outcome = Flag bool | Count int | Bytes int "byte list"

definition perform ::
  "('k, 'tm) posix \<Rightarrow> operation \<Rightarrow> 'k world \<Rightarrow> File \<Rightarrow> outcome \<times> 'k world \<times> File" where
  "perform os x w f =
     (case x of
        Open_op m \<Rightarrow> (case Open os m w f of (r, s) \<Rightarrow> (Flag r, s))
      | Close_op \<Rightarrow> (case Close os w f of (r, s) \<Rightarrow> (Flag r, s))
      | Remove_op \<Rightarrow> (case Remove os w f of (r, s) \<Rightarrow> (Flag r, s))
      | Seek_op d wh \<Rightarrow> (case Seek os d wh w f of (r, s) \<Rightarrow> (Count r, s))
      | Tell_op \<Rightarrow> (case Tell os w f of (r, s) \<Rightarrow> (Count r, s))
      | Read_op n \<Rightarrow> (case Read os n w f of ((r, bs), s) \<Rightarrow> (Bytes r bs, s))
      | Write_op bs \<Rightarrow> (case Write os bs w f of (r, s) \<Rightarrow> (Count r, s))
      | Rename_op p \<Rightarrow> (case Rename os p w f of (r, s) \<Rightarrow> (Flag r, s)))"

fun run ::
  "('k, 'tm) posix \<Rightarrow> operation list \<Rightarrow> 'k world \<Rightarrow> File \<Rightarrow>
     (operation \<times> outcome) list \<times> 'k world \<times> File" where
  "run os [] w f = ([], w, f)"
| "run os (x # xs) w f =
     (case perform os x w f of
        (r, w1, f1) \<Rightarrow>
          (case run os xs w1 f1 of
             (h, w2, f2) \<Rightarrow> ((x, r) # h, w2, f2)))"

text \<open>
  The reading of the history that the specification gives for \<^verbatim>\<open>test()\<close>: the
  most recent \<^verbatim>\<open>open\<close> returned true and no \<^verbatim>\<open>close\<close> or \<^verbatim>\<open>remove\<close> after it
  returned true.
\<close>

fun last_open_stands :: "bool \<Rightarrow> (operation \<times> outcome) list \<Rightarrow> bool" where
  "last_open_stands b [] = b"
| "last_open_stands b ((Open_op m, Flag r) # h) = last_open_stands r h"
| "last_open_stands b ((Close_op, Flag True) # h) = last_open_stands False h"
| "last_open_stands b ((Remove_op, Flag True) # h) = last_open_stands False h"
| "last_open_stands b (_ # h) = last_open_stands b h"

text \<open>
  The reading of the trace that the code implements: the most recent \<^verbatim>\<open>open\<close>
  primitive returned a descriptor and no \<^verbatim>\<open>close\<close> primitive after it returned 0.
\<close>

fun holds_descriptor :: "bool \<Rightarrow> syscall list \<Rightarrow> bool" where
  "holds_descriptor b [] = b"
| "holds_descriptor b (open_call p fl md r # t) = holds_descriptor (r \<noteq> -1) t"
| "holds_descriptor b (close_call fd r # t) = holds_descriptor (if r = 0 then False else b) t"
| "holds_descriptor b (_ # t) = holds_descriptor b t"

text \<open>
  More systems for the examples. \<open>faulty\<close> is \<open>disk\<close> with a \<^verbatim>\<open>close\<close> of
  descriptor 0 that fails. In \<open>busy\<close> the file \<open>a\<close> is open for reading on
  descriptor 0 at offset 1; \<open>stuck\<close> is \<open>busy\<close> with a \<^verbatim>\<open>close\<close> of descriptor 0
  that fails; in \<open>orphan\<close> the name \<open>a\<close> has been unlinked by
  someone else while descriptor 0 is still open on its inode. \<open>held\<close> is the
  \<^verbatim>\<open>File\<close> bound to \<open>a\<close> that owns descriptor 0.
\<close>

definition faulty :: kernel where
  "faulty = disk\<lparr>k_close_eio := (\<lambda>fd. fd = 0)\<rparr>"

definition busy :: kernel where
  "busy = disk\<lparr>k_fds := [0 \<mapsto> \<lparr>ofd_ino = 0, ofd_pos = 1, ofd_rd = True, ofd_wr = False\<rparr>]\<rparr>"

definition stuck :: kernel where
  "stuck = busy\<lparr>k_close_eio := (\<lambda>fd. fd = 0)\<rparr>"

definition orphan :: kernel where
  "orphan = busy\<lparr>k_names := [''b'' \<mapsto> 1]\<rparr>"

definition held :: File where
  "held = \<lparr>file_handle = 0, file_path = Path ''a''\<rparr>"

text \<open>
  The same primitives with a \<^verbatim>\<open>close\<close> that fails only once: a failing \<^verbatim>\<open>close\<close>
  of a descriptor clears its mark in \<open>k_close_eio\<close>, so that the next \<^verbatim>\<open>close\<close> of
  the descriptor succeeds (a call interrupted and then repeated).
\<close>

definition k_close_once :: "int \<Rightarrow> kernel \<Rightarrow> int \<times> kernel" where
  "k_close_once fd k =
     (case k_close fd k of
        (r, ka) \<Rightarrow>
          if r = 0 then (r, ka)
          else (r, ka\<lparr>k_close_eio := (k_close_eio ka)(fd := False)\<rparr>))"

definition interrupted_once :: "(kernel, int \<times> int \<times> int \<times> int) posix" where
  "interrupted_once = regular_files\<lparr>sys_close := k_close_once\<rparr>"

subsection \<open>The hidden attribute\<close>

text \<open>
  Modelled from the spec: the static \<^verbatim>\<open>File::hidden(const Path &)\<close>, declared in
  \<^verbatim>\<open>include/ckcore/windows/file.hh\<close> and implemented nowhere in the sources at
  hand. The specification gives the POSIX convention: a file is hidden iff the
  basename of its path (what follows the last slash) starts with a dot.
\<close>

definition Hidden_path :: "Path \<Rightarrow> bool" where
  "Hidden_path path =
     (case rev (takeWhile (\<lambda>c. c \<noteq> CHR ''/'') (rev (Name path))) of
        [] \<Rightarrow> False
      | c # _ \<Rightarrow> c = CHR ''.'')"

text \<open>
  Modelled from the spec: the member \<^verbatim>\<open>File::hidden()\<close>, declared in the same
  header and implemented nowhere in the sources at hand. The specification
  says that it delegates to the static form.
\<close>

definition Hidden :: "File \<Rightarrow> bool" where
  "Hidden f = Hidden_path (file_path f)"

section \<open>Evaluation on concrete systems\<close>

lemmas class_defs =
  new_File_def Close_def acquire_def Open_def Test_def Seek_def Tell_def Read_def Write_def
  Exist_def Remove_def Rename_def Time_def Access_def Size_def Exist_path_def Remove_path_def
  Rename_path_def Time_path_def Access_path_def Size_path_def convert_times_def perform_def
  c_open_def c_close_def c_lseek_def c_read_def c_write_def c_stat_def c_fstat_def
  c_unlink_def c_rename_def c_access_def status_def Hidden_def Hidden_path_def

lemmas model_defs =
  regular_files_def k_open_def k_close_def k_lseek_def k_read_def k_write_def k_stat_def
  k_fstat_def k_unlink_def k_rename_def k_access_def k_localtime_def install_def overlay_def
  stat_of_def disk_def boot_def faulty_def busy_def stuck_def orphan_def held_def
  k_close_once_def interrupted_once_def

lemma lowest_free_numeral:
  "lowest_free t (numeral v) n =
     (if t (int n) = None then int n else lowest_free t (pred_numeral v) (Suc n))"
  by (simp add: numeral_eq_Suc)

lemmas run_defs = class_defs model_defs lowest_free_numeral

section \<open>The handle across a sequence of operations\<close>

lemma holds_descriptor_append:
  "holds_descriptor b (xs @ ys) = holds_descriptor (holds_descriptor b xs) ys"
  by (induction b xs rule: holds_descriptor.induct) simp_all

lemma Close_trace:
  "Close os w f = (r, wa, fa) \<Longrightarrow>
   \<exists>es. trace wa = trace w @ es \<and> Test fa = holds_descriptor (Test f) es"
  by (auto simp: Close_def c_close_def Test_def split: if_splits prod.splits)

lemma acquire_trace:
  "acquire os m w f = (r, wa, fa) \<Longrightarrow>
   \<exists>es. trace wa = trace w @ es \<and> Test fa = holds_descriptor (Test f) es"
  by (cases m) (auto simp: acquire_def c_open_def Test_def split: prod.splits)

lemma Open_trace:
  "Open os m w f = (r, wa, fa) \<Longrightarrow>
   \<exists>es. trace wa = trace w @ es \<and> Test fa = holds_descriptor (Test f) es"
proof (cases "file_handle f = -1")
  case True
  assume "Open os m w f = (r, wa, fa)"
  with True have "acquire os m w f = (r, wa, fa)" by (simp add: Open_def)
  then show ?thesis by (rule acquire_trace)
next
  case False
  assume o: "Open os m w f = (r, wa, fa)"
  obtain c w1 f1 where c: "Close os w f = (c, w1, f1)"
    by (cases "Close os w f") auto
  from Close_trace [OF c] obtain es where
    es: "trace w1 = trace w @ es" "Test f1 = holds_descriptor (Test f) es" by blast
  show ?thesis
  proof (cases c)
    case True
    with o c False have "acquire os m w1 f1 = (r, wa, fa)" by (simp add: Open_def)
    from acquire_trace [OF this] obtain es' where
      "trace wa = trace w1 @ es'" "Test fa = holds_descriptor (Test f1) es'" by blast
    with es have "trace wa = trace w @ (es @ es') \<and>
        Test fa = holds_descriptor (Test f) (es @ es')"
      by (simp add: holds_descriptor_append)
    then show ?thesis by blast
  next
    case False
    with o c \<open>file_handle f \<noteq> -1\<close> have "wa = w1" "fa = f1" by (simp_all add: Open_def)
    with es show ?thesis by blast
  qed
qed

lemma Remove_trace:
  "Remove os w f = (r, wa, fa) \<Longrightarrow>
   \<exists>es. trace wa = trace w @ es \<and> Test fa = holds_descriptor (Test f) es"
proof -
  assume o: "Remove os w f = (r, wa, fa)"
  obtain c w1 f1 where c: "Close os w f = (c, w1, f1)"
    by (cases "Close os w f") auto
  from Close_trace [OF c] obtain es where
    es: "trace w1 = trace w @ es" "Test f1 = holds_descriptor (Test f) es" by blast
  obtain u k2 where u: "sys_unlink os (Name (file_path f1)) (kernel w1) = (u, k2)"
    by (cases "sys_unlink os (Name (file_path f1)) (kernel w1)") auto
  from o c u have "trace wa = trace w1 @ [unlink_call (Name (file_path f1)) u]" "fa = f1"
    by (auto simp: Remove_def c_unlink_def)
  with es have "trace wa = trace w @ (es @ [unlink_call (Name (file_path f1)) u]) \<and>
      Test fa = holds_descriptor (Test f) (es @ [unlink_call (Name (file_path f1)) u])"
    by (simp add: holds_descriptor_append)
  then show ?thesis by blast
qed

lemma Rename_trace:
  "Rename os q w f = (r, wa, fa) \<Longrightarrow>
   \<exists>es. trace wa = trace w @ es \<and> Test fa = holds_descriptor (Test f) es"
proof -
  assume o: "Rename os q w f = (r, wa, fa)"
  let ?s = "stat_call (Name q) (status (sys_stat os (Name q) (kernel w)))"
  let ?w0 = "w\<lparr>trace := trace w @ [?s]\<rparr>"
  have e: "Exist_path os q w = (status (sys_stat os (Name q) (kernel w)) = 0, ?w0)"
    by (simp add: Exist_path_def c_stat_def)
  show ?thesis
  proof (cases "status (sys_stat os (Name q) (kernel w)) = 0")
    case True
    with o e have "wa = ?w0" "fa = f" by (simp_all add: Rename_def)
    then have "trace wa = trace w @ [?s] \<and> Test fa = holds_descriptor (Test f) [?s]"
      by simp
    then show ?thesis by blast
  next
    case False
    obtain c w1 f1 where c: "Close os ?w0 f = (c, w1, f1)"
      by (cases "Close os ?w0 f") auto
    from Close_trace [OF c] obtain es where
      es: "trace w1 = trace ?w0 @ es" "Test f1 = holds_descriptor (Test f) es" by blast
    obtain u k2 where u: "sys_rename os (Name (file_path f1)) (Name q) (kernel w1) = (u, k2)"
      by (cases "sys_rename os (Name (file_path f1)) (Name q) (kernel w1)") auto
    from o e c u False
    have "trace wa = trace w1 @ [rename_call (Name (file_path f1)) (Name q) u]"
      and "Test fa = Test f1"
      by (auto simp: Rename_def c_rename_def Test_def split: if_splits)
    with es have "trace wa = trace w @
          (?s # es @ [rename_call (Name (file_path f1)) (Name q) u]) \<and>
        Test fa = holds_descriptor (Test f)
          (?s # es @ [rename_call (Name (file_path f1)) (Name q) u])"
      by (simp add: holds_descriptor_append)
    then show ?thesis by blast
  qed
qed

lemma access_trace:
  "(Seek os d wh w f = (r, wa, fa) \<longrightarrow>
      (\<exists>es. trace wa = trace w @ es \<and> Test fa = holds_descriptor (Test f) es)) \<and>
   (Tell os w f = (r, wa, fa) \<longrightarrow>
      (\<exists>es. trace wa = trace w @ es \<and> Test fa = holds_descriptor (Test f) es)) \<and>
   (Read os n w f = (rb, wa, fa) \<longrightarrow>
      (\<exists>es. trace wa = trace w @ es \<and> Test fa = holds_descriptor (Test f) es)) \<and>
   (Write os bs w f = (r, wa, fa) \<longrightarrow>
      (\<exists>es. trace wa = trace w @ es \<and> Test fa = holds_descriptor (Test f) es))"
  by (cases wh)
     (auto simp: Seek_def Tell_def Read_def Write_def c_lseek_def c_read_def c_write_def
        split: if_splits prod.splits)

lemma perform_trace:
  "perform os x w f = (r, wa, fa) \<Longrightarrow>
   \<exists>es. trace wa = trace w @ es \<and> Test fa = holds_descriptor (Test f) es"
proof (cases x)
  case (Open_op m)
  assume "perform os x w f = (r, wa, fa)"
  with Open_op have "Open os m w f = (fst (Open os m w f), wa, fa)"
    by (auto simp: perform_def split: prod.splits)
  then show ?thesis by (rule Open_trace)
next
  case Close_op
  assume "perform os x w f = (r, wa, fa)"
  with Close_op have "Close os w f = (fst (Close os w f), wa, fa)"
    by (auto simp: perform_def split: prod.splits)
  then show ?thesis by (rule Close_trace)
next
  case Remove_op
  assume "perform os x w f = (r, wa, fa)"
  with Remove_op have "Remove os w f = (fst (Remove os w f), wa, fa)"
    by (auto simp: perform_def split: prod.splits)
  then show ?thesis by (rule Remove_trace)
next
  case (Seek_op d wh)
  assume "perform os x w f = (r, wa, fa)"
  with Seek_op have "Seek os d wh w f = (fst (Seek os d wh w f), wa, fa)"
    by (auto simp: perform_def split: prod.splits)
  with access_trace show ?thesis by blast
next
  case Tell_op
  assume "perform os x w f = (r, wa, fa)"
  with Tell_op have "Tell os w f = (fst (Tell os w f), wa, fa)"
    by (auto simp: perform_def split: prod.splits)
  with access_trace show ?thesis by blast
next
  case (Read_op n)
  assume "perform os x w f = (r, wa, fa)"
  with Read_op have "Read os n w f = (fst (Read os n w f), wa, fa)"
    by (auto simp: perform_def split: prod.splits)
  with access_trace show ?thesis by blast
next
  case (Write_op bs)
  assume "perform os x w f = (r, wa, fa)"
  with Write_op have "Write os bs w f = (fst (Write os bs w f), wa, fa)"
    by (auto simp: perform_def split: prod.splits)
  with access_trace show ?thesis by blast
next
  case (Rename_op q)
  assume "perform os x w f = (r, wa, fa)"
  with Rename_op have "Rename os q w f = (fst (Rename os q w f), wa, fa)"
    by (auto simp: perform_def split: prod.splits)
  then show ?thesis by (rule Rename_trace)
qed

lemma run_trace:
  "run os xs w f = (h, wa, fa) \<Longrightarrow>
   \<exists>es. trace wa = trace w @ es \<and> Test fa = holds_descriptor (Test f) es"
proof (induction xs arbitrary: w f h)
  case Nil
  then have "trace wa = trace w @ [] \<and> Test fa = holds_descriptor (Test f) []" by simp
  then show ?case by blast
next
  case (Cons x xs)
  obtain r w1 f1 where p: "perform os x w f = (r, w1, f1)"
    by (cases "perform os x w f") auto
  obtain h' where q: "run os xs w1 f1 = (h', wa, fa)"
    using Cons.prems p by (auto split: prod.splits)
  from perform_trace [OF p] obtain es where
    es: "trace w1 = trace w @ es" "Test f1 = holds_descriptor (Test f) es" by blast
  from Cons.IH [OF q] obtain es' where
    "trace wa = trace w1 @ es'" "Test fa = holds_descriptor (Test f1) es'" by blast
  with es have "trace wa = trace w @ (es @ es') \<and>
      Test fa = holds_descriptor (Test f) (es @ es')"
    by (simp add: holds_descriptor_append)
  then show ?case by blast
qed

text \<open>
  Claim C1, as stated: after any sequence of operations on a fresh \<^verbatim>\<open>File\<close>,
  \<^verbatim>\<open>Test()\<close> is true iff the most recent \<^verbatim>\<open>Open\<close> succeeded and no \<^verbatim>\<open>Close\<close> or
  \<^verbatim>\<open>Remove\<close> after it succeeded. It fails on \<^verbatim>\<open>Rename\<close>, one of the operations the
  claim lists: \<^verbatim>\<open>Rename\<close> closes the handle on its way. On the file \<open>a\<close>, \<^verbatim>\<open>Open\<close>
  for reading and then \<^verbatim>\<open>Rename\<close> to the free name \<open>c\<close> both return true, the
  history holds no \<^verbatim>\<open>Close\<close> and no \<^verbatim>\<open>Remove\<close>, and \<^verbatim>\<open>Test()\<close> is false. It fails
  in the other direction when a second \<^verbatim>\<open>Open\<close> cannot close the handle of the
  first: on \<open>faulty\<close> the most recent \<^verbatim>\<open>Open\<close> returns false and \<^verbatim>\<open>Test()\<close> is true.
\<close>

theorem Test_history_counterexample:
  "(case run regular_files [Open_op ckOPEN_READ, Rename_op (Path ''c'')] (boot disk)
          (new_File (Path ''a'')) of
      (h, w, f) \<Rightarrow>
        h = [(Open_op ckOPEN_READ, Flag True), (Rename_op (Path ''c''), Flag True)] \<and>
        last_open_stands False h \<and> \<not> Test f) \<and>
   (case run regular_files [Open_op ckOPEN_READ, Open_op ckOPEN_READ] (boot faulty)
          (new_File (Path ''a'')) of
      (h, w, f) \<Rightarrow>
        h = [(Open_op ckOPEN_READ, Flag True), (Open_op ckOPEN_READ, Flag False)] \<and>
        \<not> last_open_stands False h \<and> Test f)"
  by (simp add: run_defs)

text \<open>
  Claim C1, amended: after any sequence of operations on a fresh \<^verbatim>\<open>File\<close>,
  \<^verbatim>\<open>Test()\<close> is true iff the most recent \<^verbatim>\<open>open\<close> primitive issued for the \<^verbatim>\<open>File\<close>
  returned a descriptor and no \<^verbatim>\<open>close\<close> primitive issued after it returned 0,
  whichever of \<^verbatim>\<open>Close\<close>, \<^verbatim>\<open>Remove\<close>, \<^verbatim>\<open>Rename\<close> or a later \<^verbatim>\<open>Open\<close> issued it. This
  holds for every behaviour of the operating system.
\<close>

theorem Test_follows_the_descriptor:
  "run os xs (boot k) (new_File p) = (h, w, f) \<Longrightarrow>
   Test f = holds_descriptor False (trace w)"
proof -
  assume "run os xs (boot k) (new_File p) = (h, w, f)"
  from run_trace [OF this] obtain es where
    "trace w = trace (boot k) @ es" "Test f = holds_descriptor (Test (new_File p)) es"
    by blast
  then show ?thesis by (simp add: boot_def new_File_def Test_def)
qed

text \<open>
  Claim C1, amended, on the run of the counterexample: the trace ends with a
  \<^verbatim>\<open>close\<close> that returned 0, and \<^verbatim>\<open>Test()\<close> is false.
\<close>

theorem Test_follows_the_descriptor_witness:
  "(case run regular_files [Open_op ckOPEN_READ, Rename_op (Path ''c'')] (boot disk)
          (new_File (Path ''a'')) of
      (h, w, f) \<Rightarrow>
        trace w =
          [open_call ''a'' [O_RDONLY] [] 0, stat_call ''c'' (-1), close_call 0 0,
           rename_call ''a'' ''c'' 0] \<and>
        Test f = holds_descriptor False (trace w) \<and> \<not> Test f)"
  using Test_follows_the_descriptor
    [of regular_files "[Open_op ckOPEN_READ, Rename_op (Path ''c'')]" disk "Path ''a''"
      "fst (run regular_files [Open_op ckOPEN_READ, Rename_op (Path ''c'')] (boot disk)
          (new_File (Path ''a'')))"
      "fst (snd (run regular_files [Open_op ckOPEN_READ, Rename_op (Path ''c'')] (boot disk)
          (new_File (Path ''a''))))"
      "snd (snd (run regular_files [Open_op ckOPEN_READ, Rename_op (Path ''c'')] (boot disk)
          (new_File (Path ''a''))))"]
  by (simp add: run_defs)

section \<open>Rename onto an existing file\<close>

text \<open>
  The path taken when a file exists at the new path, for every operating
  system: the \<^verbatim>\<open>stat\<close> of the new path is the only primitive issued, and the
  function returns false there, before the call of \<^verbatim>\<open>Close\<close>, with the system and
  the \<^verbatim>\<open>File\<close> as they were.
\<close>

lemma Rename_returns_at_existing_target:
  "sys_stat os (Name q) (kernel w) = Some st \<Longrightarrow>
   Rename os q w f = (False, w\<lparr>trace := trace w @ [stat_call (Name q) 0]\<rparr>, f)"
  by (simp add: Rename_def Exist_path_def c_stat_def status_def)

text \<open>
  Claim C2: when a file already exists at the new path, \<^verbatim>\<open>Rename\<close> returns false,
  leaves the filesystem and the path of the \<^verbatim>\<open>File\<close> unchanged, and closes any
  open handle; the comment of \<^verbatim>\<open>File::Rename\<close> says the same (``If the new full
  path exist it will not be overwritten. If the file is open it will be
  closed.''). The code does the first three and misses the last: it returns at
  the existence check, two lines before its call of \<^verbatim>\<open>Close\<close>. With the files \<open>a\<close>
  and \<open>b\<close> existing and \<open>a\<close> opened for reading, \<^verbatim>\<open>Rename\<close> to \<open>b\<close> returns false,
  the names and the inodes of the system are unchanged and the path is still
  \<open>a\<close>, but no \<^verbatim>\<open>close\<close> is issued, \<^verbatim>\<open>Test()\<close> is still true and the descriptor is
  still open in the kernel.
\<close>

theorem Rename_existing_target_keeps_handle:
  "(case run regular_files [Open_op ckOPEN_READ, Rename_op (Path ''b'')] (boot disk)
          (new_File (Path ''a'')) of
      (h, w, f) \<Rightarrow>
        h = [(Open_op ckOPEN_READ, Flag True), (Rename_op (Path ''b''), Flag False)] \<and>
        trace w = [open_call ''a'' [O_RDONLY] [] 0, stat_call ''b'' 0] \<and>
        k_names (kernel w) = k_names disk \<and> k_inodes (kernel w) = k_inodes disk \<and>
        file_path f = Path ''a'' \<and>
        Test f \<and> k_fds (kernel w) (file_handle f) \<noteq> None)"
  by (simp add: run_defs)

section \<open>Open\<close>

text \<open>
  Claim C3: on a \<^verbatim>\<open>File\<close> whose handle is present, \<^verbatim>\<open>Open\<close> first attempts
  \<^verbatim>\<open>Close\<close>. If the \<^verbatim>\<open>close\<close> primitive fails, \<^verbatim>\<open>Open\<close> returns false, the \<^verbatim>\<open>File\<close> is
  unchanged (the prior handle stays) and no \<^verbatim>\<open>open\<close> primitive is issued. If it
  succeeds, or if the handle was absent, \<^verbatim>\<open>Open\<close> issues the \<^verbatim>\<open>open\<close> primitive of
  the mode, stores what it returns as the handle and returns true iff that is
  not \<open>-1\<close>.
\<close>

theorem Open_contract:
  "(file_handle f \<noteq> -1 \<longrightarrow> sys_close os (file_handle f) (kernel w) = (c, k1) \<longrightarrow> c \<noteq> 0 \<longrightarrow>
      Open os m w f =
        (False, \<lparr>kernel = k1, trace = trace w @ [close_call (file_handle f) c]\<rparr>, f)) \<and>
   (file_handle f \<noteq> -1 \<longrightarrow> sys_close os (file_handle f) (kernel w) = (0, k1) \<longrightarrow>
      (case m of
         ckOPEN_READ \<Rightarrow> sys_open os (Name (file_path f)) [O_RDONLY] [] k1
       | ckOPEN_WRITE \<Rightarrow>
           sys_open os (Name (file_path f)) [O_CREAT, O_WRONLY] [S_IRUSR, S_IWUSR] k1)
        = (fd, k2) \<longrightarrow>
      Open os m w f =
        (fd \<noteq> -1,
         \<lparr>kernel = k2,
          trace = trace w @
            [close_call (file_handle f) 0,
             case m of
               ckOPEN_READ \<Rightarrow> open_call (Name (file_path f)) [O_RDONLY] [] fd
             | ckOPEN_WRITE \<Rightarrow>
                 open_call (Name (file_path f)) [O_CREAT, O_WRONLY] [S_IRUSR, S_IWUSR] fd]\<rparr>,
         f\<lparr>file_handle := fd\<rparr>)) \<and>
   (file_handle f = -1 \<longrightarrow>
      (case m of
         ckOPEN_READ \<Rightarrow> sys_open os (Name (file_path f)) [O_RDONLY] [] (kernel w)
       | ckOPEN_WRITE \<Rightarrow>
           sys_open os (Name (file_path f)) [O_CREAT, O_WRONLY] [S_IRUSR, S_IWUSR] (kernel w))
        = (fd, k2) \<longrightarrow>
      Open os m w f =
        (fd \<noteq> -1,
         \<lparr>kernel = k2,
          trace = trace w @
            [case m of
               ckOPEN_READ \<Rightarrow> open_call (Name (file_path f)) [O_RDONLY] [] fd
             | ckOPEN_WRITE \<Rightarrow>
                 open_call (Name (file_path f)) [O_CREAT, O_WRONLY] [S_IRUSR, S_IWUSR] fd]\<rparr>,
         f\<lparr>file_handle := fd\<rparr>))"
  by (cases m) (simp_all add: Open_def Close_def acquire_def c_close_def c_open_def)

text \<open>
  Claim C3 on three systems: a \<^verbatim>\<open>close\<close> that fails (\<open>stuck\<close>), a \<^verbatim>\<open>close\<close> that
  succeeds followed by a successful \<^verbatim>\<open>open\<close> for writing (\<open>busy\<close>), and an absent
  handle with an \<^verbatim>\<open>open\<close> for reading of a name that does not exist.
\<close>

theorem Open_contract_witness:
  "file_handle held \<noteq> -1 \<and>
   sys_close regular_files (file_handle held) (kernel (boot stuck)) = (-1, stuck) \<and>
   Open regular_files ckOPEN_READ (boot stuck) held =
     (False, \<lparr>kernel = stuck, trace = [close_call 0 (-1)]\<rparr>, held) \<and>
   sys_close regular_files (file_handle held) (kernel (boot busy)) = (0, disk) \<and>
   sys_open regular_files ''a'' [O_CREAT, O_WRONLY] [S_IRUSR, S_IWUSR] disk =
     (0, disk\<lparr>k_fds := [0 \<mapsto> \<lparr>ofd_ino = 0, ofd_pos = 0, ofd_rd = False, ofd_wr = True\<rparr>]\<rparr>) \<and>
   Open regular_files ckOPEN_WRITE (boot busy) held =
     (True,
      \<lparr>kernel = disk\<lparr>k_fds := [0 \<mapsto> \<lparr>ofd_ino = 0, ofd_pos = 0, ofd_rd = False, ofd_wr = True\<rparr>]\<rparr>,
       trace = [close_call 0 0, open_call ''a'' [O_CREAT, O_WRONLY] [S_IRUSR, S_IWUSR] 0]\<rparr>,
      held) \<and>
   file_handle (new_File (Path ''zz'')) = -1 \<and>
   sys_open regular_files ''zz'' [O_RDONLY] [] disk = (-1, disk) \<and>
   Open regular_files ckOPEN_READ (boot disk) (new_File (Path ''zz'')) =
     (False, \<lparr>kernel = disk, trace = [open_call ''zz'' [O_RDONLY] [] (-1)]\<rparr>,
      new_File (Path ''zz''))"
  using Open_contract [of held regular_files "boot stuck" "-1" stuck ckOPEN_READ]
    Open_contract [of held regular_files "boot busy" 0 disk ckOPEN_WRITE 0
      "disk\<lparr>k_fds := [0 \<mapsto> \<lparr>ofd_ino = 0, ofd_pos = 0, ofd_rd = False, ofd_wr = True\<rparr>]\<rparr>"]
    Open_contract [of "new_File (Path ''zz'')" regular_files "boot disk" 0 disk ckOPEN_READ
      "-1" disk]
  by (simp add: run_defs)

section \<open>Close\<close>

lemma Close_absent: "file_handle f = -1 \<Longrightarrow> Close os w f = (False, w, f)"
  by (simp add: Close_def)

lemma Close_present:
  "file_handle f \<noteq> -1 \<Longrightarrow> sys_close os (file_handle f) (kernel w) = (r, k') \<Longrightarrow>
   Close os w f =
     (r = 0, \<lparr>kernel = k', trace = trace w @ [close_call (file_handle f) r]\<rparr>,
      if r = 0 then f\<lparr>file_handle := -1\<rparr> else f)"
  by (simp add: Close_def c_close_def)

lemma perform_keeps_absent:
  "file_handle f = -1 \<Longrightarrow> \<forall>m. x \<noteq> Open_op m \<Longrightarrow> perform os x w f = (r, wa, fa) \<Longrightarrow>
   file_handle fa = -1 \<and> (x = Close_op \<longrightarrow> r = Flag False)"
  by (cases x)
     (auto simp: perform_def Close_def Remove_def Seek_def Tell_def Read_def Write_def
        Rename_def split: prod.splits if_splits)

lemma run_keeps_absent:
  "file_handle f = -1 \<Longrightarrow> \<forall>x\<in>set xs. \<forall>m. x \<noteq> Open_op m \<Longrightarrow> run os xs w f = (h, wb, fb) \<Longrightarrow>
   file_handle fb = -1 \<and> (\<forall>e\<in>set h. fst e = Close_op \<longrightarrow> snd e = Flag False)"
proof (induction xs arbitrary: w f h)
  case Nil
  then show ?case by simp
next
  case (Cons x xs)
  obtain r wa fa where p: "perform os x w f = (r, wa, fa)"
    by (cases "perform os x w f") auto
  obtain h' where q: "run os xs wa fa = (h', wb, fb)" and h: "h = (x, r) # h'"
    using Cons.prems(3) p by (auto split: prod.splits)
  from Cons.prems(2) have nx: "\<forall>m. x \<noteq> Open_op m" and nxs: "\<forall>x\<in>set xs. \<forall>m. x \<noteq> Open_op m"
    by simp_all
  from perform_keeps_absent [OF Cons.prems(1) nx p]
  have a: "file_handle fa = -1" and b: "x = Close_op \<longrightarrow> r = Flag False" by simp_all
  from Cons.IH [OF a nxs q]
  have c: "file_handle fb = -1" and d: "\<forall>e\<in>set h'. fst e = Close_op \<longrightarrow> snd e = Flag False"
    by simp_all
  from h b c d show ?case by simp
qed

text \<open>
  Claim C4, as stated: \<^verbatim>\<open>Close\<close> returns false without a primitive when the
  handle is absent; with a handle, a successful \<^verbatim>\<open>close\<close> makes the handle absent
  and returns true, a failed one keeps the handle and returns false;
  consequently the first \<^verbatim>\<open>Close\<close> on an open \<^verbatim>\<open>File\<close> returns true and every later
  \<^verbatim>\<open>Close\<close> without an \<^verbatim>\<open>Open\<close> between returns false. The consequence does not
  follow from the failed case: on \<open>stuck\<close> the first \<^verbatim>\<open>Close\<close> on the open \<^verbatim>\<open>File\<close>
  returns false, and where the \<^verbatim>\<open>close\<close> fails only once, \<^verbatim>\<open>Open\<close> followed by three
  \<^verbatim>\<open>Close\<close> returns true, false, true, false: the first \<^verbatim>\<open>Close\<close> fails and a later
  one succeeds.
\<close>

theorem Close_idempotence_counterexample:
  "file_handle held \<noteq> -1 \<and>
   Close regular_files (boot stuck) held =
     (False, \<lparr>kernel = stuck, trace = [close_call 0 (-1)]\<rparr>, held) \<and>
   (case run interrupted_once [Open_op ckOPEN_READ, Close_op, Close_op, Close_op]
          (boot faulty) (new_File (Path ''a'')) of
      (h, w, f) \<Rightarrow>
        h = [(Open_op ckOPEN_READ, Flag True), (Close_op, Flag False),
             (Close_op, Flag True), (Close_op, Flag False)] \<and>
        trace w =
          [open_call ''a'' [O_RDONLY] [] 0, close_call 0 (-1), close_call 0 0])"
  by (simp add: run_defs)

text \<open>
  Claim C4, amended: \<^verbatim>\<open>Close\<close> returns false and leaves the system untouched
  when the handle is absent. When the handle is present it issues the \<^verbatim>\<open>close\<close>
  primitive once: if that returns 0 the handle becomes absent and \<^verbatim>\<open>Close\<close>
  returns true, otherwise the handle stays and \<^verbatim>\<open>Close\<close> returns false.
  Consequently, when the \<^verbatim>\<open>close\<close> primitive succeeds, the first \<^verbatim>\<open>Close\<close> on an open
  \<^verbatim>\<open>File\<close> returns true; and once a \<^verbatim>\<open>Close\<close> has returned true, every \<^verbatim>\<open>Close\<close> in
  any later sequence of operations that contains no \<^verbatim>\<open>Open\<close> returns false.
\<close>

theorem Close_contract:
  "(file_handle f = -1 \<longrightarrow> Close os w f = (False, w, f)) \<and>
   (file_handle f \<noteq> -1 \<longrightarrow> sys_close os (file_handle f) (kernel w) = (r, k') \<longrightarrow>
      Close os w f =
        (r = 0, \<lparr>kernel = k', trace = trace w @ [close_call (file_handle f) r]\<rparr>,
         if r = 0 then f\<lparr>file_handle := -1\<rparr> else f)) \<and>
   (Close os w f = (True, wa, fa) \<longrightarrow> (\<forall>x\<in>set xs. \<forall>m. x \<noteq> Open_op m) \<longrightarrow>
      run os xs wa fa = (h, wb, fb) \<longrightarrow>
      (\<forall>e\<in>set h. fst e = Close_op \<longrightarrow> snd e = Flag False)) \<and>
   (file_handle f \<noteq> -1 \<longrightarrow> sys_close os (file_handle f) (kernel w) = (0, ka) \<longrightarrow>
      (\<forall>x\<in>set xs. \<forall>m. x \<noteq> Open_op m) \<longrightarrow>
      fst (Close os w f) \<and>
      (\<forall>e\<in>set (fst (run os xs (fst (snd (Close os w f))) (snd (snd (Close os w f))))).
         fst e = Close_op \<longrightarrow> snd e = Flag False))"
proof -
  have absent: "file_handle f = -1 \<longrightarrow> Close os w f = (False, w, f)"
    by (simp add: Close_absent)
  have present: "file_handle f \<noteq> -1 \<longrightarrow> sys_close os (file_handle f) (kernel w) = (r, k') \<longrightarrow>
      Close os w f =
        (r = 0, \<lparr>kernel = k', trace = trace w @ [close_call (file_handle f) r]\<rparr>,
         if r = 0 then f\<lparr>file_handle := -1\<rparr> else f)"
    using Close_present [of f os w r k'] by blast
  have later: "run os xs wc fc = (hc, wd, fd) \<Longrightarrow> Close os w f = (True, wc, fc) \<Longrightarrow>
      \<forall>x\<in>set xs. \<forall>m. x \<noteq> Open_op m \<Longrightarrow>
      \<forall>e\<in>set hc. fst e = Close_op \<longrightarrow> snd e = Flag False" for wc fc hc wd fd
  proof -
    assume r: "run os xs wc fc = (hc, wd, fd)" and c: "Close os w f = (True, wc, fc)"
      and n: "\<forall>x\<in>set xs. \<forall>m. x \<noteq> Open_op m"
    from c have "file_handle fc = -1"
      by (auto simp: Close_def split: if_splits prod.splits)
    from run_keeps_absent [OF this n r]
    show "\<forall>e\<in>set hc. fst e = Close_op \<longrightarrow> snd e = Flag False" by simp
  qed
  have once: "Close os w f = (True, wa, fa) \<longrightarrow> (\<forall>x\<in>set xs. \<forall>m. x \<noteq> Open_op m) \<longrightarrow>
      run os xs wa fa = (h, wb, fb) \<longrightarrow>
      (\<forall>e\<in>set h. fst e = Close_op \<longrightarrow> snd e = Flag False)"
    using later [of wa fa h wb fb] by blast
  have first: "file_handle f \<noteq> -1 \<longrightarrow> sys_close os (file_handle f) (kernel w) = (0, ka) \<longrightarrow>
      (\<forall>x\<in>set xs. \<forall>m. x \<noteq> Open_op m) \<longrightarrow>
      fst (Close os w f) \<and>
      (\<forall>e\<in>set (fst (run os xs (fst (snd (Close os w f))) (snd (snd (Close os w f))))).
         fst e = Close_op \<longrightarrow> snd e = Flag False)"
  proof (intro impI)
    assume p: "file_handle f \<noteq> -1" and s: "sys_close os (file_handle f) (kernel w) = (0, ka)"
      and n: "\<forall>x\<in>set xs. \<forall>m. x \<noteq> Open_op m"
    let ?wc = "fst (snd (Close os w f))" and ?fc = "snd (snd (Close os w f))"
    from Close_present [OF p s] have t: "fst (Close os w f)" by simp
    then have c: "Close os w f = (True, ?wc, ?fc)"
      by (cases "Close os w f") simp
    have "run os xs ?wc ?fc =
        (fst (run os xs ?wc ?fc), fst (snd (run os xs ?wc ?fc)), snd (snd (run os xs ?wc ?fc)))"
      by simp
    from later [OF this c n] t
    show "fst (Close os w f) \<and>
      (\<forall>e\<in>set (fst (run os xs ?wc ?fc)). fst e = Close_op \<longrightarrow> snd e = Flag False)"
      by simp
  qed
  from absent present once first show ?thesis by (intro conjI)
qed

text \<open>
  Claim C4, amended, on concrete systems: a fresh \<^verbatim>\<open>File\<close>; the open \<^verbatim>\<open>File\<close> of
  \<open>busy\<close>, whose \<^verbatim>\<open>close\<close> succeeds, whose first \<^verbatim>\<open>Close\<close> returns true and whose
  following \<^verbatim>\<open>Close\<close>, \<^verbatim>\<open>Tell\<close>, \<^verbatim>\<open>Close\<close> return false, \<open>-1\<close>, false without a
  primitive; the open \<^verbatim>\<open>File\<close> of \<open>stuck\<close>, whose \<^verbatim>\<open>close\<close> fails.
\<close>

theorem Close_contract_witness:
  "file_handle (new_File (Path ''a'')) = -1 \<and>
   Close regular_files (boot disk) (new_File (Path ''a'')) =
     (False, boot disk, new_File (Path ''a'')) \<and>
   file_handle held \<noteq> -1 \<and>
   sys_close regular_files (file_handle held) (kernel (boot busy)) = (0, disk) \<and>
   Close regular_files (boot busy) held =
     (True, \<lparr>kernel = disk, trace = [close_call 0 0]\<rparr>, new_File (Path ''a'')) \<and>
   run regular_files [Close_op, Tell_op, Close_op] \<lparr>kernel = disk, trace = [close_call 0 0]\<rparr>
       (new_File (Path ''a'')) =
     ([(Close_op, Flag False), (Tell_op, Count (-1)), (Close_op, Flag False)],
      \<lparr>kernel = disk, trace = [close_call 0 0]\<rparr>, new_File (Path ''a'')) \<and>
   sys_close regular_files (file_handle held) (kernel (boot stuck)) = (-1, stuck) \<and>
   Close regular_files (boot stuck) held =
     (False, \<lparr>kernel = stuck, trace = [close_call 0 (-1)]\<rparr>, held)"
  using Close_contract [of "new_File (Path ''a'')" regular_files "boot disk"]
    Close_contract [of held regular_files "boot busy" 0 disk
      "\<lparr>kernel = disk, trace = [close_call 0 0]\<rparr>" "new_File (Path ''a'')"
      "[Close_op, Tell_op, Close_op]"
      "[(Close_op, Flag False), (Tell_op, Count (-1)), (Close_op, Flag False)]"
      "\<lparr>kernel = disk, trace = [close_call 0 0]\<rparr>" "new_File (Path ''a'')" disk]
    Close_contract [of held regular_files "boot stuck" "-1" stuck]
  by (simp add: run_defs)

section \<open>Size of an open file\<close>

lemma k_lseek_cur:
  "k_fds k h = Some d \<Longrightarrow> k_inodes k (ofd_ino d) = Some nd \<Longrightarrow>
   k_lseek h 0 SEEK_CUR k = (int (ofd_pos d), k)"
  by (simp add: k_lseek_def fun_upd_idem)

lemma k_lseek_end:
  "k_fds k h = Some d \<Longrightarrow> k_inodes k (ofd_ino d) = Some nd \<Longrightarrow>
   k_lseek h 0 SEEK_END k =
     (int (length (i_data nd)),
      k\<lparr>k_fds := (k_fds k)(h \<mapsto> d\<lparr>ofd_pos := length (i_data nd)\<rparr>)\<rparr>)"
  by (simp add: k_lseek_def)

lemma k_lseek_set:
  "k_fds k h = Some d \<Longrightarrow> k_inodes k (ofd_ino d) = Some nd \<Longrightarrow>
   k_lseek h (int p) SEEK_SET k = (int p, k\<lparr>k_fds := (k_fds k)(h \<mapsto> d\<lparr>ofd_pos := p\<rparr>)\<rparr>)"
  by (simp add: k_lseek_def)

lemma k_lseek_invalid:
  "k_fds k h = None \<or> (k_fds k h = Some d \<and> k_inodes k (ofd_ino d) = None) \<Longrightarrow>
   k_lseek h off wh k = (-1, k)"
  by (auto simp: k_lseek_def)

lemma Size_regular:
  assumes h: "file_handle f \<noteq> -1"
    and d: "k_fds k (file_handle f) = Some d"
    and nd: "k_inodes k (ofd_ino d) = Some nd"
  shows "Size regular_files \<lparr>kernel = k, trace = t\<rparr> f =
      (int (length (i_data nd)),
       \<lparr>kernel = k,
        trace = t @
          [lseek_call (file_handle f) 0 SEEK_CUR (int (ofd_pos d)),
           lseek_call (file_handle f) 0 SEEK_END (int (length (i_data nd))),
           lseek_call (file_handle f) (int (ofd_pos d)) SEEK_SET (int (ofd_pos d))]\<rparr>,
       f)"
proof -
  let ?k2 = "k\<lparr>k_fds := (k_fds k)(file_handle f \<mapsto> d\<lparr>ofd_pos := length (i_data nd)\<rparr>)\<rparr>"
  have 1: "k_lseek (file_handle f) 0 SEEK_CUR k = (int (ofd_pos d), k)"
    by (rule k_lseek_cur [OF d nd])
  have 2: "k_lseek (file_handle f) 0 SEEK_END k = (int (length (i_data nd)), ?k2)"
    by (rule k_lseek_end [OF d nd])
  have "k_lseek (file_handle f) (int (ofd_pos d)) SEEK_SET ?k2 =
      (int (ofd_pos d),
       ?k2\<lparr>k_fds := (k_fds ?k2)(file_handle f \<mapsto>
          (d\<lparr>ofd_pos := length (i_data nd)\<rparr>)\<lparr>ofd_pos := ofd_pos d\<rparr>)\<rparr>)"
    by (rule k_lseek_set) (simp_all add: nd)
  moreover have "?k2\<lparr>k_fds := (k_fds ?k2)(file_handle f \<mapsto>
          (d\<lparr>ofd_pos := length (i_data nd)\<rparr>)\<lparr>ofd_pos := ofd_pos d\<rparr>)\<rparr> = k"
    using d by (simp add: fun_upd_idem)
  ultimately have 3: "k_lseek (file_handle f) (int (ofd_pos d)) SEEK_SET ?k2 = (int (ofd_pos d), k)"
    by simp
  show ?thesis
    using h by (simp add: Size_def Tell_def Seek_def c_lseek_def regular_files_def 1 2 3)
qed

lemma Size_invalid:
  assumes h: "file_handle f \<noteq> -1"
    and bad: "k_fds k (file_handle f) = None \<or>
       (k_fds k (file_handle f) = Some d \<and> k_inodes k (ofd_ino d) = None)"
  shows "Size regular_files \<lparr>kernel = k, trace = t\<rparr> f =
      (-1,
       \<lparr>kernel = k,
        trace = t @
          [lseek_call (file_handle f) 0 SEEK_CUR (-1),
           lseek_call (file_handle f) 0 SEEK_END (-1),
           lseek_call (file_handle f) (-1) SEEK_SET (-1)]\<rparr>,
       f)"
  using h by (simp add: Size_def Tell_def Seek_def c_lseek_def regular_files_def
      k_lseek_invalid [OF bad])

text \<open>
  Claim C5: on a \<^verbatim>\<open>File\<close> with a handle, \<^verbatim>\<open>Size\<close> issues exactly three \<^verbatim>\<open>lseek\<close>
  primitives, in this order: by 0 from the current position (remembering what
  it returns), by 0 from the end, and to the remembered value from the start;
  it returns what the second one returned, the length or \<open>-1\<close>, and leaves the
  fields of the \<^verbatim>\<open>File\<close> as they were. On regular files, where \<^verbatim>\<open>lseek\<close> has its
  POSIX meaning, the value returned for a valid descriptor is the length of
  the file, a descriptor that is not open gives \<open>-1\<close>, and the state of the
  system after the call, the offset of the descriptor included, is the state
  before it.
\<close>

theorem Size_of_open_File:
  "file_handle f \<noteq> -1 \<Longrightarrow>
   (sys_lseek os (file_handle f) 0 SEEK_CUR (kernel w) = (cur_pos, k1) \<longrightarrow>
    sys_lseek os (file_handle f) 0 SEEK_END k1 = (len, k2) \<longrightarrow>
    sys_lseek os (file_handle f) cur_pos SEEK_SET k2 = (back, k3) \<longrightarrow>
      Size os w f =
        (len,
         \<lparr>kernel = k3,
          trace = trace w @
            [lseek_call (file_handle f) 0 SEEK_CUR cur_pos,
             lseek_call (file_handle f) 0 SEEK_END len,
             lseek_call (file_handle f) cur_pos SEEK_SET back]\<rparr>,
         f)) \<and>
   (k_fds k (file_handle f) = Some d \<longrightarrow> k_inodes k (ofd_ino d) = Some nd \<longrightarrow>
      Size regular_files \<lparr>kernel = k, trace = t\<rparr> f =
        (int (length (i_data nd)),
         \<lparr>kernel = k,
          trace = t @
            [lseek_call (file_handle f) 0 SEEK_CUR (int (ofd_pos d)),
             lseek_call (file_handle f) 0 SEEK_END (int (length (i_data nd))),
             lseek_call (file_handle f) (int (ofd_pos d)) SEEK_SET (int (ofd_pos d))]\<rparr>,
         f)) \<and>
   (k_fds k (file_handle f) = None \<longrightarrow>
      fst (Size regular_files \<lparr>kernel = k, trace = t\<rparr> f) = -1) \<and>
   kernel (fst (snd (Size regular_files \<lparr>kernel = k, trace = t\<rparr> f))) = k"
proof (intro conjI impI)
  assume h: "file_handle f \<noteq> -1"
  {
    assume "sys_lseek os (file_handle f) 0 SEEK_CUR (kernel w) = (cur_pos, k1)"
      and "sys_lseek os (file_handle f) 0 SEEK_END k1 = (len, k2)"
      and "sys_lseek os (file_handle f) cur_pos SEEK_SET k2 = (back, k3)"
    with h show "Size os w f =
        (len,
         \<lparr>kernel = k3,
          trace = trace w @
            [lseek_call (file_handle f) 0 SEEK_CUR cur_pos,
             lseek_call (file_handle f) 0 SEEK_END len,
             lseek_call (file_handle f) cur_pos SEEK_SET back]\<rparr>,
         f)"
      by (simp add: Size_def Tell_def Seek_def c_lseek_def)
  next
    assume "k_fds k (file_handle f) = Some d" and "k_inodes k (ofd_ino d) = Some nd"
    with h show "Size regular_files \<lparr>kernel = k, trace = t\<rparr> f =
        (int (length (i_data nd)),
         \<lparr>kernel = k,
          trace = t @
            [lseek_call (file_handle f) 0 SEEK_CUR (int (ofd_pos d)),
             lseek_call (file_handle f) 0 SEEK_END (int (length (i_data nd))),
             lseek_call (file_handle f) (int (ofd_pos d)) SEEK_SET (int (ofd_pos d))]\<rparr>,
         f)"
      by (rule Size_regular)
  next
    assume "k_fds k (file_handle f) = None"
    then show "fst (Size regular_files \<lparr>kernel = k, trace = t\<rparr> f) = -1"
      using Size_invalid [OF h, of k d t] by simp
  next
    show "kernel (fst (snd (Size regular_files \<lparr>kernel = k, trace = t\<rparr> f))) = k"
    proof (cases "k_fds k (file_handle f)")
      case None
      then show ?thesis using Size_invalid [OF h, of k d t] by simp
    next
      case (Some d')
      show ?thesis
      proof (cases "k_inodes k (ofd_ino d')")
        case None
        with Some show ?thesis using Size_invalid [OF h, of k d' t] by simp
      next
        case (Some nd')
        with \<open>k_fds k (file_handle f) = Some d'\<close> show ?thesis
          using Size_regular [OF h, of k d' nd' t] by simp
      qed
    qed
  }
qed

text \<open>
  Claim C5 on the system \<open>busy\<close>: the file \<open>a\<close> has three bytes and descriptor 0
  stands at offset 1; \<^verbatim>\<open>Size\<close> returns 3 and the offset is 1 again.
\<close>

theorem Size_of_open_File_witness:
  "file_handle held \<noteq> -1 \<and>
   sys_lseek regular_files (file_handle held) 0 SEEK_CUR (kernel (boot busy)) = (1, busy) \<and>
   sys_lseek regular_files (file_handle held) 0 SEEK_END busy =
     (3, busy\<lparr>k_fds := [0 \<mapsto> \<lparr>ofd_ino = 0, ofd_pos = 3, ofd_rd = True, ofd_wr = False\<rparr>]\<rparr>) \<and>
   sys_lseek regular_files (file_handle held) 1 SEEK_SET
       (busy\<lparr>k_fds := [0 \<mapsto> \<lparr>ofd_ino = 0, ofd_pos = 3, ofd_rd = True, ofd_wr = False\<rparr>]\<rparr>) =
     (1, busy) \<and>
   k_fds busy (file_handle held) =
     Some \<lparr>ofd_ino = 0, ofd_pos = 1, ofd_rd = True, ofd_wr = False\<rparr> \<and>
   Size regular_files (boot busy) held =
     (3,
      \<lparr>kernel = busy,
       trace = [lseek_call 0 0 SEEK_CUR 1, lseek_call 0 0 SEEK_END 3, lseek_call 0 1 SEEK_SET 1]\<rparr>,
      held)"
  using Size_of_open_File
    [of held regular_files "boot busy" 1 busy 3
      "busy\<lparr>k_fds := [0 \<mapsto> \<lparr>ofd_ino = 0, ofd_pos = 3, ofd_rd = True, ofd_wr = False\<rparr>]\<rparr>"
      1 busy busy "\<lparr>ofd_ino = 0, ofd_pos = 1, ofd_rd = True, ofd_wr = False\<rparr>"
      "\<lparr>i_data = [1, 2, 3], i_rd = True, i_wr = True, i_atime = 100, i_mtime = 200,
        i_ctime = 300\<rparr>" "[]"]
  by (simp add: run_defs)

section \<open>Tell and Seek\<close>



section \<open>Operations on an absent handle\<close>

text \<open>
  Claim C7: on a \<^verbatim>\<open>File\<close> whose handle is absent, \<^verbatim>\<open>Seek\<close>, \<^verbatim>\<open>Tell\<close>, \<^verbatim>\<open>Read\<close> and
  \<^verbatim>\<open>Write\<close> each return \<open>-1\<close>; the system, its trace included, and the \<^verbatim>\<open>File\<close>
  are the ones before the call, so no primitive was invoked.
\<close>

theorem absent_handle_sentinel:
  "file_handle f = -1 \<Longrightarrow>
     Seek os distance wh w f = (-1, w, f) \<and>
     Tell os w f = (-1, w, f) \<and>
     Read os count w f = ((-1, []), w, f) \<and>
     Write os buffer w f = (-1, w, f)"
  by (simp add: Seek_def Tell_def Read_def Write_def)

text \<open>Claim C7 on a fresh \<^verbatim>\<open>File\<close> bound to the existing file \<open>a\<close>.\<close>

theorem absent_handle_sentinel_witness:
  "file_handle (new_File (Path ''a'')) = -1 \<and>
   Seek regular_files 2 ckFILE_BEGIN (boot disk) (new_File (Path ''a'')) =
     (-1, boot disk, new_File (Path ''a'')) \<and>
   Tell regular_files (boot disk) (new_File (Path ''a'')) =
     (-1, boot disk, new_File (Path ''a'')) \<and>
   Read regular_files 3 (boot disk) (new_File (Path ''a'')) =
     ((-1, []), boot disk, new_File (Path ''a'')) \<and>
   Write regular_files [7, 8] (boot disk) (new_File (Path ''a'')) =
     (-1, boot disk, new_File (Path ''a''))"
  using absent_handle_sentinel [of "new_File (Path ''a'')" regular_files 2 ckFILE_BEGIN
      "boot disk" 3 "[7, 8]"]
  by (simp add: new_File_def)

section \<open>Member functions and their static forms\<close>

text \<open>
  Claim C8: on a \<^verbatim>\<open>File\<close> bound to a path and holding no handle, the member
  functions \<^verbatim>\<open>Exist\<close>, \<^verbatim>\<open>Size\<close>, \<^verbatim>\<open>Time\<close>, \<^verbatim>\<open>Access\<close> and \<^verbatim>\<open>hidden\<close> return what the
  static forms return on that path, with the same effect on the system, and
  leave the \<^verbatim>\<open>File\<close> as it was. (\<^verbatim>\<open>hidden\<close> is the one modelled from the
  specification.)
\<close>

theorem instance_agrees_with_static:
  "file_handle f = -1 \<Longrightarrow>
   Exist os w f = (case Exist_path os (file_path f) w of (r, wa) \<Rightarrow> (r, wa, f)) \<and>
   Size os w f = (case Size_path os (file_path f) w of (r, wa) \<Rightarrow> (r, wa, f)) \<and>
   Time os tms w f = (case Time_path os (file_path f) tms w of (r, wa) \<Rightarrow> (r, wa, f)) \<and>
   Access os m w f = (case Access_path os (file_path f) m w of (r, wa) \<Rightarrow> (r, wa, f)) \<and>
   Hidden f = Hidden_path (file_path f)"
  by (simp add: Exist_def Size_def Time_def Access_def Hidden_def)

text \<open>
  Claim C8 on a fresh \<^verbatim>\<open>File\<close> bound to the file \<open>a\<close> of \<open>disk\<close>: it exists, has
  three bytes, its three time stamps convert, it is readable and not hidden.
\<close>

theorem instance_agrees_with_static_witness:
  "file_handle (new_File (Path ''a'')) = -1 \<and>
   Exist regular_files (boot disk) (new_File (Path ''a'')) =
     (True, \<lparr>kernel = disk, trace = [stat_call ''a'' 0]\<rparr>, new_File (Path ''a'')) \<and>
   Exist_path regular_files (Path ''a'') (boot disk) =
     (True, \<lparr>kernel = disk, trace = [stat_call ''a'' 0]\<rparr>) \<and>
   Size regular_files (boot disk) (new_File (Path ''a'')) =
     (3, \<lparr>kernel = disk, trace = [stat_call ''a'' 0]\<rparr>, new_File (Path ''a'')) \<and>
   Size_path regular_files (Path ''a'') (boot disk) =
     (3, \<lparr>kernel = disk, trace = [stat_call ''a'' 0]\<rparr>) \<and>
   Time regular_files ((0, 0, 0, 0), (0, 0, 0, 0), (0, 0, 0, 0)) (boot disk)
       (new_File (Path ''a'')) =
     ((True, (0, 0, 1, 40), (0, 0, 3, 20), (0, 0, 5, 0)),
      \<lparr>kernel = disk, trace = [stat_call ''a'' 0]\<rparr>, new_File (Path ''a'')) \<and>
   Time_path regular_files (Path ''a'') ((0, 0, 0, 0), (0, 0, 0, 0), (0, 0, 0, 0))
       (boot disk) =
     ((True, (0, 0, 1, 40), (0, 0, 3, 20), (0, 0, 5, 0)),
      \<lparr>kernel = disk, trace = [stat_call ''a'' 0]\<rparr>) \<and>
   Access regular_files ckOPEN_READ (boot disk) (new_File (Path ''a'')) =
     (True, \<lparr>kernel = disk, trace = [access_call ''a'' R_OK 0]\<rparr>, new_File (Path ''a'')) \<and>
   Access_path regular_files (Path ''a'') ckOPEN_READ (boot disk) =
     (True, \<lparr>kernel = disk, trace = [access_call ''a'' R_OK 0]\<rparr>) \<and>
   \<not> Hidden (new_File (Path ''a'')) \<and> \<not> Hidden_path (Path ''a'')"
  using instance_agrees_with_static
    [of "new_File (Path ''a'')" regular_files "boot disk"
      "((0, 0, 0, 0), (0, 0, 0, 0), (0, 0, 0, 0))" ckOPEN_READ]
  by (simp add: run_defs)

section \<open>Remove\<close>

text \<open>
  Claim C9: on every \<^verbatim>\<open>File\<close>, open or closed, \<^verbatim>\<open>Remove\<close> first does what
  \<^verbatim>\<open>Close\<close> does; whatever \<^verbatim>\<open>Close\<close> returned, it then issues \<^verbatim>\<open>unlink\<close> on the path
  of the \<^verbatim>\<open>File\<close> in the system \<^verbatim>\<open>Close\<close> left, and returns true iff \<^verbatim>\<open>unlink\<close>
  returned 0. The \<^verbatim>\<open>File\<close> is left as \<^verbatim>\<open>Close\<close> left it, and the primitives
  issued are the \<^verbatim>\<open>close\<close> (when the handle was present) and then the \<^verbatim>\<open>unlink\<close>.
\<close>

theorem Remove_contract:
  "Close os w f = (c, wa, fa) \<Longrightarrow>
   sys_unlink os (Name (file_path f)) (kernel wa) = (u, kb) \<Longrightarrow>
   Remove os w f =
     (u = 0, \<lparr>kernel = kb, trace = trace wa @ [unlink_call (Name (file_path f)) u]\<rparr>, fa) \<and>
   file_path fa = file_path f \<and>
   trace wa =
     trace w @ (if file_handle f = -1 then []
                else [close_call (file_handle f) (fst (sys_close os (file_handle f) (kernel w)))])"
  by (auto simp: Remove_def Close_def c_close_def c_unlink_def split: if_splits prod.splits)

text \<open>
  Claim C9 on the system \<open>stuck\<close>: the \<^verbatim>\<open>close\<close> fails, \<^verbatim>\<open>Close\<close> returns false, the
  \<^verbatim>\<open>unlink\<close> is issued all the same and succeeds, and \<^verbatim>\<open>Remove\<close> returns true with
  the handle still present.
\<close>

theorem Remove_contract_witness:
  "Close regular_files (boot stuck) held =
     (False, \<lparr>kernel = stuck, trace = [close_call 0 (-1)]\<rparr>, held) \<and>
   sys_unlink regular_files (Name (file_path held)) stuck =
     (0, stuck\<lparr>k_names := [''b'' \<mapsto> 1]\<rparr>) \<and>
   Remove regular_files (boot stuck) held =
     (True,
      \<lparr>kernel = stuck\<lparr>k_names := [''b'' \<mapsto> 1]\<rparr>,
       trace = [close_call 0 (-1), unlink_call ''a'' 0]\<rparr>,
      held) \<and>
   Test held"
  using Remove_contract
    [of regular_files "boot stuck" held False
      "\<lparr>kernel = stuck, trace = [close_call 0 (-1)]\<rparr>" held 0
      "stuck\<lparr>k_names := [''b'' \<mapsto> 1]\<rparr>"]
  by (simp add: run_defs fun_eq_iff)

section \<open>Rename of an open file\<close>

text \<open>
  Claim C10: on a \<^verbatim>\<open>File\<close> with a handle, when no file exists at the new path,
  \<^verbatim>\<open>Rename\<close> issues \<^verbatim>\<open>close\<close> on the handle before it issues \<^verbatim>\<open>rename\<close>, and the
  \<^verbatim>\<open>rename\<close> runs in the system the \<^verbatim>\<open>close\<close> left. \<^verbatim>\<open>Rename\<close> returns true iff
  \<^verbatim>\<open>rename\<close> returned 0 and takes the new path only then; the handle is absent
  afterwards whenever the \<^verbatim>\<open>close\<close> returned 0, also when the \<^verbatim>\<open>rename\<close> failed
  and the path is unchanged.
\<close>

theorem Rename_closes_before_renaming:
  "file_handle f \<noteq> -1 \<Longrightarrow> sys_stat os (Name q) (kernel w) = None \<Longrightarrow>
   sys_close os (file_handle f) (kernel w) = (c, k1) \<Longrightarrow>
   sys_rename os (Name (file_path f)) (Name q) k1 = (r, k2) \<Longrightarrow>
   Rename os q w f =
     (r = 0,
      \<lparr>kernel = k2,
       trace = trace w @
         [stat_call (Name q) (-1), close_call (file_handle f) c,
          rename_call (Name (file_path f)) (Name q) r]\<rparr>,
      \<lparr>file_handle = (if c = 0 then -1 else file_handle f),
       file_path = (if r = 0 then q else file_path f)\<rparr>)"
  by (simp add: Rename_def Exist_path_def c_stat_def status_def Close_def c_close_def
      c_rename_def)

text \<open>
  Claim C10 on the system \<open>orphan\<close>: nothing exists at \<open>c\<close>, the \<^verbatim>\<open>close\<close> succeeds,
  the \<^verbatim>\<open>rename\<close> fails because the name \<open>a\<close> is gone; \<^verbatim>\<open>Rename\<close> returns false, the
  path is still \<open>a\<close> and the handle is absent.
\<close>

theorem Rename_closes_before_renaming_witness:
  "file_handle held \<noteq> -1 \<and>
   sys_stat regular_files (Name (Path ''c'')) (kernel (boot orphan)) = None \<and>
   sys_close regular_files (file_handle held) (kernel (boot orphan)) =
     (0, orphan\<lparr>k_fds := Map.empty\<rparr>) \<and>
   sys_rename regular_files (Name (file_path held)) (Name (Path ''c''))
       (orphan\<lparr>k_fds := Map.empty\<rparr>) =
     (-1, orphan\<lparr>k_fds := Map.empty\<rparr>) \<and>
   Rename regular_files (Path ''c'') (boot orphan) held =
     (False,
      \<lparr>kernel = orphan\<lparr>k_fds := Map.empty\<rparr>,
       trace = [stat_call ''c'' (-1), close_call 0 0, rename_call ''a'' ''c'' (-1)]\<rparr>,
      \<lparr>file_handle = -1, file_path = Path ''a''\<rparr>)"
  using Rename_closes_before_renaming
    [of held regular_files "Path ''c''" "boot orphan" 0 "orphan\<lparr>k_fds := Map.empty\<rparr>" "-1"
      "orphan\<lparr>k_fds := Map.empty\<rparr>"]
  by (simp add: run_defs)

end
